theory Spec2Isabelle
  imports Main "HOL-Library.Word"
begin

unbundle bit_operations_syntax

section \<open>Data model of the network module\<close>

text \<open>
  The file \<^verbatim>\<open>modules/network/networker.go\<close> works on the types of package
  \<^verbatim>\<open>modules\<close> (Network, NetResource, Connected) and of Go's \<^verbatim>\<open>net\<close> package.
  The declarations of package \<^verbatim>\<open>modules\<close> are not under src/: the records below
  have the fields the file reads, with the types the file uses them at (the port is
  printed with \<^verbatim>\<open>%d\<close>, the public key is passed as a string, the identity of a
  node is compared as a whole and its \<open>ID\<close> is printed). A byte slice is a list; the
  nil slice is the empty list. The field \<^verbatim>\<open>netResAlloc\<close> of the networker, which only
  \<^verbatim>\<open>GetNetwork\<close> reads, is left out.
\<close>

type_synonym byte = "8 word"
type_synonym int8 = "8 word"

type_synonym IP = "byte list"
type_synonym IPMask = "byte list"

record IPNet =
  IP :: IP
  Mask :: IPMask

text \<open>\<^verbatim>\<open>wgtypes.Key\<close> is an array of 32 bytes.\<close>

type_synonym Key = "byte list"

record NodeID =
  ID :: string

datatype ConnType = ConnTypeWireguard | ConnTypeOther nat

record Connection =
  IP :: IP
  Port :: nat
  Key :: string

record Connected =
  Type :: ConnType
  Connection :: Connection

record NetResource =
  NodeID :: NodeID
  Prefix :: IPNet
  LinkLocal :: IPNet
  Connected :: "Connected list"

record Network =
  NetID :: string
  Resources :: "NetResource list"
  AllocationNR :: int8

record networker =
  nodeID :: NodeID
  storageDir :: string

text \<open>\<^verbatim>\<open>wireguard.Peer\<close>, as the composite literal of \<^verbatim>\<open>configureWG\<close> fills it.\<close>

record Peer =
  PublicKey :: string
  Endpoint :: string
  AllowedIPs :: "string list"

text \<open>The zero value of \<^verbatim>\<open>wireguard.Peer\<close>, which \<^verbatim>\<open>make\<close> puts in every slot.\<close>

definition zeroPeer :: Peer where
  "zeroPeer = \<lparr>PublicKey = [], Endpoint = [], AllowedIPs = []\<rparr>"

text \<open>
  Go errors are values carrying a message. \<open>Errorf\<close> is an error this file builds with
  \<^verbatim>\<open>fmt.Errorf\<close>; \<open>PrimError\<close> is an error handed back by a collaborator.
\<close>

datatype error = Errorf string | PrimError string


section \<open>Formatting: the verbs of fmt.Sprintf and net.IP\<close>

text \<open>
  The functions of Go's standard library that \<^verbatim>\<open>endpoint\<close> and the format strings of
  the file use, as the library documents them: the verbs \<^verbatim>\<open>%d\<close> and \<^verbatim>\<open>%s\<close> of
  \<^verbatim>\<open>fmt.Sprintf\<close>, and \<^verbatim>\<open>To4\<close>, \<^verbatim>\<open>To16\<close> and \<^verbatim>\<open>String\<close> of \<^verbatim>\<open>net.IP\<close>.
\<close>

definition digit_char :: "nat \<Rightarrow> char" where
  "digit_char n = ''0123456789abcdef'' ! n"

text \<open>\<^verbatim>\<open>%d\<close> on an unsigned value.\<close>

fun utoa :: "nat \<Rightarrow> string" where
  "utoa n = (if n < 10 then [digit_char n] else utoa (n div 10) @ [digit_char (n mod 10)])"

declare utoa.simps [simp del]

text \<open>\<^verbatim>\<open>%d\<close> on a signed value.\<close>

definition itoa :: "int \<Rightarrow> string" where
  "itoa i = (if i < 0 then CHR ''-'' # utoa (nat (- i)) else utoa (nat i))"

text \<open>Lower-case hexadecimal without leading zeros (\<^verbatim>\<open>appendHex\<close> of package net).\<close>

fun xtoa :: "nat \<Rightarrow> string" where
  "xtoa n = (if n < 16 then [digit_char n] else xtoa (n div 16) @ [digit_char (n mod 16)])"

declare xtoa.simps [simp del]

text \<open>Two hexadecimal digits for each byte (\<^verbatim>\<open>hexString\<close> of package net).\<close>

definition hexString :: "byte list \<Rightarrow> string" where
  "hexString bs = concat (map (\<lambda>b. [digit_char (unat b div 16), digit_char (unat b mod 16)]) bs)"

definition v4InV6Prefix :: "byte list" where
  "v4InV6Prefix = [0, 0, 0, 0, 0, 0, 0, 0, 0, 0, 0xff, 0xff]"

text \<open>
  \<^verbatim>\<open>net.IP.To4\<close>: the 4-byte form of an IPv4 address (given in 4 bytes, or in 16 bytes
  with the IPv4-in-IPv6 prefix), nil otherwise.
\<close>

definition To4 :: "IP \<Rightarrow> IP" where
  "To4 ip = (if length ip = 4 then ip
             else if length ip = 16 \<and> take 12 ip = v4InV6Prefix then drop 12 ip
             else [])"

text \<open>
  \<^verbatim>\<open>net.IP.To16\<close>: the 16-byte form of an address. A 4-byte IPv4 address is
  converted; only a slice of another length gives nil.
\<close>

definition To16 :: "IP \<Rightarrow> IP" where
  "To16 ip = (if length ip = 4 then v4InV6Prefix @ ip
              else if length ip = 16 then ip
              else [])"

text \<open>The eight 16-bit groups of a 16-byte address.\<close>

fun groups :: "byte list \<Rightarrow> nat list" where
  "groups (hi # lo # rest) = (unat hi * 256 + unat lo) # groups rest"
| "groups _ = []"

text \<open>
  The search for the longest run of zero groups in \<^verbatim>\<open>net.IP.String\<close>: the first of
  the longest runs wins; the position after an accepted run is skipped.
\<close>

function longestZeros :: "nat list \<Rightarrow> nat \<Rightarrow> nat \<times> nat \<Rightarrow> nat \<times> nat" where
  "longestZeros [] i best = best"
| "longestZeros (g # gs) i best =
     (let n = length (takeWhile (\<lambda>x. x = 0) (g # gs))
      in if snd best < n then longestZeros (drop n gs) (i + n + 1) (i, n)
         else longestZeros gs (i + 1) best)"
  by pat_completeness auto
termination
  by (relation "measure (\<lambda>(gs, i, best). length gs)") auto

declare longestZeros.simps [simp del]

fun joinColon :: "string list \<Rightarrow> string" where
  "joinColon [] = []"
| "joinColon [s] = s"
| "joinColon (s # t # ss) = s @ '':'' @ joinColon (t # ss)"

text \<open>
  \<^verbatim>\<open>net.IP.String\<close>: \<^verbatim>\<open><nil>\<close> for an empty slice, dotted decimal for an IPv4 address
  (also in its 16-byte form), the compressed IPv6 text for any other 16-byte address,
  and \<^verbatim>\<open>?\<close> followed by the bytes in hexadecimal for any other length.
\<close>

definition IP_String :: "IP \<Rightarrow> string" where
  "IP_String ip =
     (if length ip = 0 then ''<nil>''
      else if length (To4 ip) = 4 then
        utoa (unat (To4 ip ! 0)) @ ''.'' @ utoa (unat (To4 ip ! 1)) @ ''.'' @
        utoa (unat (To4 ip ! 2)) @ ''.'' @ utoa (unat (To4 ip ! 3))
      else if length ip \<noteq> 16 then ''?'' @ hexString ip
      else
        (let gs = groups ip; (e0, n) = longestZeros gs 0 (0, 0)
         in if n \<le> 1 then joinColon (map xtoa gs)
            else joinColon (map xtoa (take e0 gs)) @ ''::'' @
                 joinColon (map xtoa (drop (e0 + n) gs))))"


section \<open>The endpoint of a peer\<close>

text \<open>\<^verbatim>\<open>endpoint\<close>, lines 260-268.\<close>

definition endpoint :: "Connected \<Rightarrow> string" where
  "endpoint peer =
     (if To16 (Connection.IP (Connection peer)) \<noteq> []
      then ''['' @ IP_String (Connection.IP (Connection peer)) @ '']:'' @
           utoa (Port (Connection peer))
      else IP_String (Connection.IP (Connection peer)) @ '':'' @
           utoa (Port (Connection peer)))"


section \<open>Collaborators of the networker\<close>

text \<open>
  Every call the file makes into the kernel wrappers (packages bridge, namespace and
  wireguard of this repository, and the netlink and CNI libraries) is recorded as an
  event, with the arguments of the call. \<open>'h\<close> is the type of the handles the wrappers
  hand back (bridge, namespace, link, tunnel device).
\<close>

datatype 'h event =
    BridgeNew string
  | NamespaceCreate string
  | NsDoEnter 'h
  | NsDoExit 'h
  | SetupVeth string nat 'h
  | LinkByName string
  | AddrAdd 'h IPNet string
  | AttachNic 'h 'h
  | WireguardNew string
  | NamespaceSetLink 'h string
  | BridgeDelete string
  | NamespaceDelete string
  | LoadKey string
  | GenerateKey string
  | NamespaceGetByName string
  | WireguardGetByName string
  | WgConfigure 'h string string "Peer list"

text \<open>
  The functions the file calls and does not define are parameters of the model, so
  that what is proved holds whatever they compute:
  \<^item> the addressing scheme of package \<^verbatim>\<open>zosip\<close> (\<open>NewNibble\<close> and the methods of the
    nibble, of type \<open>'nib\<close>), pure functions as the specification requires;
  \<^item> the library functions \<^verbatim>\<open>filepath.Join\<close>, \<^verbatim>\<open>net.ParseCIDR\<close>,
    \<^verbatim>\<open>net.IPNet.String\<close> and \<^verbatim>\<open>wgtypes.Key.String\<close>;
  \<^item> the kernel wrappers, each a function on the state \<open>'k\<close> of the machine (kernel
    objects and files), returning its result and the new state. A Go result
    \<^verbatim>\<open>(T, error)\<close> whose value is dropped on error is \<open>error + T\<close>; a Go result
    \<^verbatim>\<open>error\<close> is \<open>error option\<close>, \<open>None\<close> for nil; the two key functions return
    the pair (key, error), since \<^verbatim>\<open>configureWG\<close> returns the key beside the error.
\<close>

record ('k, 'h, 'nib) env =
  NewNibble :: "IPNet \<Rightarrow> int8 \<Rightarrow> 'nib"
  NetworkName :: "'nib \<Rightarrow> string"
  BridgeName :: "'nib \<Rightarrow> string"
  WiregardName :: "'nib \<Rightarrow> string"
  VethName :: "'nib \<Rightarrow> string"
  Hex :: "'nib \<Rightarrow> string"
  ToV4 :: "'nib \<Rightarrow> error + int \<times> int"
  filepath_Join :: "string \<Rightarrow> string \<Rightarrow> string"
  ParseCIDR :: "string \<Rightarrow> error + IP \<times> IPNet"
  IPNet_String :: "IPNet \<Rightarrow> string"
  Key_String :: "Key \<Rightarrow> string"
  bridge_New :: "string \<Rightarrow> 'k \<Rightarrow> (error + 'h) \<times> 'k"
  bridge_AttachNic :: "'h \<Rightarrow> 'h \<Rightarrow> 'k \<Rightarrow> error option \<times> 'k"
  bridge_Delete :: "string \<Rightarrow> 'k \<Rightarrow> error option \<times> 'k"
  namespace_Create :: "string \<Rightarrow> 'k \<Rightarrow> (error + 'h) \<times> 'k"
  namespace_GetByName :: "string \<Rightarrow> 'k \<Rightarrow> (error + 'h) \<times> 'k"
  namespace_SetLink :: "'h \<Rightarrow> string \<Rightarrow> 'k \<Rightarrow> error option \<times> 'k"
  namespace_Delete :: "string \<Rightarrow> 'k \<Rightarrow> error option \<times> 'k"
  netns_enter :: "'h \<Rightarrow> 'k \<Rightarrow> (error + 'h) \<times> 'k"
  netns_leave :: "'h \<Rightarrow> 'k \<Rightarrow> 'k"
  ip_SetupVeth :: "string \<Rightarrow> nat \<Rightarrow> 'h \<Rightarrow> 'k \<Rightarrow> (error + string \<times> string) \<times> 'k"
  netlink_LinkByName :: "string \<Rightarrow> 'k \<Rightarrow> (error + 'h) \<times> 'k"
  netlink_AddrAdd :: "'h \<Rightarrow> IPNet \<Rightarrow> string \<Rightarrow> 'k \<Rightarrow> error option \<times> 'k"
  wireguard_New :: "string \<Rightarrow> 'k \<Rightarrow> (error + 'h) \<times> 'k"
  wireguard_GetByName :: "string \<Rightarrow> 'k \<Rightarrow> (error + 'h) \<times> 'k"
  wireguard_LoadKey :: "string \<Rightarrow> 'k \<Rightarrow> (Key \<times> error option) \<times> 'k"
  wireguard_GenerateKey :: "string \<Rightarrow> 'k \<Rightarrow> (Key \<times> error option) \<times> 'k"
  wg_Configure :: "'h \<Rightarrow> string \<Rightarrow> string \<Rightarrow> Peer list \<Rightarrow> 'k \<Rightarrow> error option \<times> 'k"

text \<open>The world: the calls made so far, oldest first, and the state of the machine.\<close>

record ('k, 'h) world =
  trace :: "'h event list"
  kern :: 'k

text \<open>One call of a collaborator: it is recorded, then it acts on the machine.\<close>

definition call :: "'h event \<Rightarrow> ('k \<Rightarrow> 'r \<times> 'k) \<Rightarrow> ('k, 'h) world \<Rightarrow> 'r \<times> ('k, 'h) world" where
  "call ev f w = (case f (kern w) of (r, k) \<Rightarrow> (r, \<lparr>trace = trace w @ [ev], kern = k\<rparr>))"

text \<open>
  Modelled from the spec: \<^verbatim>\<open>ns.NetNS.Do\<close> of the CNI library, which is not under src/.
  It is the scoped operation of the specification: the namespace is entered (this may
  fail, and then the operation does not run), the operation runs inside, and the
  caller's context is restored on exit whether the operation succeeded or failed; the
  result is the operation's. The value of the operation stands for what the closure
  stores in the variables it captures.
\<close>

definition netns_Do ::
  "('k, 'h, 'nib) env \<Rightarrow> 'h \<Rightarrow> ('h \<Rightarrow> ('k, 'h) world \<Rightarrow> (error + 'a) \<times> ('k, 'h) world) \<Rightarrow>
   ('k, 'h) world \<Rightarrow> (error + 'a) \<times> ('k, 'h) world" where
  "netns_Do E netns toRun w =
     (case call (NsDoEnter netns) (netns_enter E netns) w of
        (Inl err, w1) \<Rightarrow> (Inl err, w1)
      | (Inr hostNS, w1) \<Rightarrow>
          (case toRun hostNS w1 of
             (res, w2) \<Rightarrow>
               (res, \<lparr>trace = trace w2 @ [NsDoExit netns], kern = netns_leave E netns (kern w2)\<rparr>)))"


section \<open>Creating and deleting a network resource\<close>

text \<open>
  The loop of lines 140-146 over the two addresses: each is added to the link, and the
  first failure returns.
\<close>

fun addAddrs ::
  "('k, 'h, 'nib) env \<Rightarrow> 'h \<Rightarrow> IPNet list \<Rightarrow> ('k, 'h) world \<Rightarrow> error option \<times> ('k, 'h) world" where
  "addAddrs E link [] w = (None, w)"
| "addAddrs E link (ipnet # rest) w =
     (case call (AddrAdd link ipnet []) (netlink_AddrAdd E link ipnet []) w of
        (Some err, w1) \<Rightarrow> (Some err, w1)
      | (None, w1) \<Rightarrow> addAddrs E link rest w1)"

text \<open>
  The closure \<^verbatim>\<open>handler\<close> of \<^verbatim>\<open>createNetworkResource\<close>, lines 113-149. On success
  its value is the name it stored in \<^verbatim>\<open>hostIface.Name\<close>.
\<close>

definition createHandler ::
  "('k, 'h, 'nib) env \<Rightarrow> NetResource \<Rightarrow> 'nib \<Rightarrow> string \<Rightarrow> 'h \<Rightarrow> ('k, 'h) world \<Rightarrow>
   (error + string) \<times> ('k, 'h) world" where
  "createHandler E resource nibble vethName hostNS w =
     (case call (SetupVeth vethName 1500 hostNS) (ip_SetupVeth E vethName 1500 hostNS) w of
        (Inl err, w1) \<Rightarrow> (Inl err, w1)
      | (Inr (hostVethName, containerVethName), w1) \<Rightarrow>
     (case call (LinkByName containerVethName) (netlink_LinkByName E containerVethName) w1 of
        (Inl err, w2) \<Rightarrow> (Inl err, w2)
      | (Inr link, w2) \<Rightarrow>
     (case ToV4 E nibble of
        Inl err \<Rightarrow> (Inl err, w2)
      | Inr (a, b) \<Rightarrow>
     (case ParseCIDR E (''10.'' @ itoa a @ ''.'' @ itoa b @ ''.1/24'') of
        Inl err \<Rightarrow> (Inl err, w2)
      | Inr (ip, ipnetv4) \<Rightarrow>
     (case addAddrs E link [Prefix resource, ipnetv4\<lparr>IPNet.IP := ip\<rparr>] w2 of
        (Some err, w3) \<Rightarrow> (Inl err, w3)
      | (None, w3) \<Rightarrow> (Inr hostVethName, w3))))))"

text \<open>\<^verbatim>\<open>createNetworkResource\<close>, lines 91-182.\<close>

definition createNetworkResource ::
  "('k, 'h, 'nib) env \<Rightarrow> string \<Rightarrow> NetResource \<Rightarrow> int8 \<Rightarrow> ('k, 'h) world \<Rightarrow>
   error option \<times> ('k, 'h) world" where
  "createNetworkResource E netID resource allorNr w =
     (let nibble = NewNibble E (Prefix resource) allorNr;
          netnsName = NetworkName E nibble;
          bridgeName = BridgeName E nibble;
          wgName = WiregardName E nibble;
          vethName = VethName E nibble
      in
     (case call (BridgeNew bridgeName) (bridge_New E bridgeName) w of
        (Inl err, w1) \<Rightarrow> (Some err, w1)
      | (Inr br, w1) \<Rightarrow>
     (case call (NamespaceCreate netnsName) (namespace_Create E netnsName) w1 of
        (Inl err, w2) \<Rightarrow> (Some err, w2)
      | (Inr netns, w2) \<Rightarrow>
     (case netns_Do E netns (createHandler E resource nibble vethName) w2 of
        (Inl err, w3) \<Rightarrow> (Some err, w3)
      | (Inr hostIfaceName, w3) \<Rightarrow>
     (case call (LinkByName hostIfaceName) (netlink_LinkByName E hostIfaceName) w3 of
        (Inl err, w4) \<Rightarrow> (Some err, w4)
      | (Inr hostVeth, w4) \<Rightarrow>
     (case call (AttachNic hostVeth br) (bridge_AttachNic E hostVeth br) w4 of
        (Some err, w5) \<Rightarrow> (Some err, w5)
      | (None, w5) \<Rightarrow>
     (case call (WireguardNew wgName) (wireguard_New E wgName) w5 of
        (Inl err, w6) \<Rightarrow> (Some err, w6)
      | (Inr wg, w6) \<Rightarrow>
          call (NamespaceSetLink wg netnsName) (namespace_SetLink E wg netnsName) w6)))))))"

text \<open>\<^verbatim>\<open>deleteNetResource\<close>, lines 184-194.\<close>

definition deleteNetResource ::
  "('k, 'h, 'nib) env \<Rightarrow> NetResource \<Rightarrow> int8 \<Rightarrow> ('k, 'h) world \<Rightarrow> error option \<times> ('k, 'h) world" where
  "deleteNetResource E resource allocNr w =
     (let nibble = NewNibble E (Prefix resource) allocNr;
          netnsName = NetworkName E nibble;
          bridgeName = BridgeName E nibble
      in
     (case call (BridgeDelete bridgeName) (bridge_Delete E bridgeName) w of
        (Some err, w1) \<Rightarrow> (Some err, w1)
      | (None, w1) \<Rightarrow> call (NamespaceDelete netnsName) (namespace_Delete E netnsName) w1))"


section \<open>Configuring the tunnel\<close>

text \<open>
  The first block of \<^verbatim>\<open>configureWG\<close>, lines 206-212: the key is loaded from the
  storage path; when loading fails, whatever the reason, a key is generated at that path.
\<close>

definition obtainKey ::
  "('k, 'h, 'nib) env \<Rightarrow> string \<Rightarrow> ('k, 'h) world \<Rightarrow> (Key \<times> error option) \<times> ('k, 'h) world" where
  "obtainKey E storagePath w =
     (case call (LoadKey storagePath) (wireguard_LoadKey E storagePath) w of
        ((key, None), w1) \<Rightarrow> ((key, None), w1)
      | ((key, Some err), w1) \<Rightarrow>
          call (GenerateKey storagePath) (wireguard_GenerateKey E storagePath) w1)"

text \<open>
  The loop of lines 216-233 over \<^verbatim>\<open>resource.Connected\<close>, \<open>i\<close> the index of the peer
  at the head of the list. The slice \<open>peers\<close> was made with one slot for each connected
  peer; the slot of a peer of another type is left as it is.
\<close>

fun buildPeers ::
  "('k, 'h, 'nib) env \<Rightarrow> 'nib \<Rightarrow> Connected list \<Rightarrow> nat \<Rightarrow> Peer list \<Rightarrow> error + Peer list" where
  "buildPeers E nibble [] i peers = Inr peers"
| "buildPeers E nibble (peer # rest) i peers =
     (if Type peer \<noteq> ConnTypeWireguard then buildPeers E nibble rest (i + 1) peers
      else
        (case ToV4 E nibble of
           Inl err \<Rightarrow> Inl err
         | Inr (a, b) \<Rightarrow>
             buildPeers E nibble rest (i + 1)
               (peers[i := \<lparr>PublicKey = Key (Connection peer),
                            Endpoint = endpoint peer,
                            AllowedIPs = [''fe80::'' @ Hex E nibble @ ''/128'',
                                          ''172.16.'' @ itoa a @ ''.'' @ itoa b @ ''/32'']\<rparr>])))"

text \<open>The closure \<^verbatim>\<open>handler\<close> of \<^verbatim>\<open>configureWG\<close>, lines 240-252.\<close>

definition configureHandler ::
  "('k, 'h, 'nib) env \<Rightarrow> NetResource \<Rightarrow> string \<Rightarrow> Key \<Rightarrow> Peer list \<Rightarrow> 'h \<Rightarrow> ('k, 'h) world \<Rightarrow>
   (error + unit) \<times> ('k, 'h) world" where
  "configureHandler E resource wgName key peers hostNS w =
     (case call (WireguardGetByName wgName) (wireguard_GetByName E wgName) w of
        (Inl err, w1) \<Rightarrow> (Inl err, w1)
      | (Inr wg, w1) \<Rightarrow>
     (case call (WgConfigure wg (IPNet_String E (LinkLocal resource)) (Key_String E key) peers)
             (wg_Configure E wg (IPNet_String E (LinkLocal resource)) (Key_String E key) peers) w1 of
        (Some err, w2) \<Rightarrow> (Inl err, w2)
      | (None, w2) \<Rightarrow> (Inr (), w2)))"

text \<open>
  The rest of \<^verbatim>\<open>configureWG\<close> after the key, lines 214-257: the peer list, the
  namespace, and the configuration of the device inside it.
\<close>

definition configureMesh ::
  "('k, 'h, 'nib) env \<Rightarrow> NetResource \<Rightarrow> 'nib \<Rightarrow> Key \<Rightarrow> ('k, 'h) world \<Rightarrow>
   error option \<times> ('k, 'h) world" where
  "configureMesh E resource nibble key w =
     (case buildPeers E nibble (Connected resource) 0
             (replicate (length (Connected resource)) zeroPeer) of
        Inl err \<Rightarrow> (Some err, w)
      | Inr peers \<Rightarrow>
     (case call (NamespaceGetByName (NetworkName E nibble))
             (namespace_GetByName E (NetworkName E nibble)) w of
        (Inl err, w1) \<Rightarrow> (Some err, w1)
      | (Inr netns, w1) \<Rightarrow>
     (case netns_Do E netns
             (configureHandler E resource (WiregardName E nibble) key peers) w1 of
        (Inl err, w2) \<Rightarrow> (Some err, w2)
      | (Inr u, w2) \<Rightarrow> (None, w2))))"

text \<open>
  \<^verbatim>\<open>configureWG\<close>, lines 196-258: the key, then the mesh. (The parameter
  \<^verbatim>\<open>storageDir\<close> is written \<open>storDir\<close>, the field of the networker having the name.)
\<close>

definition configureWG ::
  "('k, 'h, 'nib) env \<Rightarrow> string \<Rightarrow> NetResource \<Rightarrow> int8 \<Rightarrow> ('k, 'h) world \<Rightarrow>
   (Key \<times> error option) \<times> ('k, 'h) world" where
  "configureWG E storDir resource allocNr w =
     (let nibble = NewNibble E (Prefix resource) allocNr;
          storagePath = filepath_Join E storDir (Hex E nibble)
      in
     (case obtainKey E storagePath w of
        ((key, Some err), w1) \<Rightarrow> ((key, Some err), w1)
      | ((key, None), w1) \<Rightarrow>
          (case configureMesh E resource nibble key w1 of
             (res, w2) \<Rightarrow> ((key, res), w2))))"


section \<open>The networker\<close>

text \<open>\<^verbatim>\<open>applyNetResource\<close>, lines 77-86.\<close>

definition applyNetResource ::
  "('k, 'h, 'nib) env \<Rightarrow> string \<Rightarrow> string \<Rightarrow> NetResource \<Rightarrow> int8 \<Rightarrow> ('k, 'h) world \<Rightarrow>
   error option \<times> ('k, 'h) world" where
  "applyNetResource E storDir netID netRes allocNr w =
     (case createNetworkResource E netID netRes allocNr w of
        (Some err, w1) \<Rightarrow> (Some err, w1)
      | (None, w1) \<Rightarrow>
          (case configureWG E storDir netRes allocNr w1 of
             ((key, Some err), w2) \<Rightarrow> (Some err, w2)
           | ((key, None), w2) \<Rightarrow> (None, w2)))"

text \<open>
  \<^verbatim>\<open>ApplyNetResource\<close>, lines 47-61. The loop stops at the first resource of this
  node, which is what \<open>find\<close> returns.
\<close>

definition ApplyNetResource ::
  "('k, 'h, 'nib) env \<Rightarrow> networker \<Rightarrow> Network \<Rightarrow> ('k, 'h) world \<Rightarrow> error option \<times> ('k, 'h) world" where
  "ApplyNetResource E n network w =
     (case find (\<lambda>res. NodeID res = nodeID n) (Resources network) of
        None \<Rightarrow> (Some (Errorf (''not network resource for this node: '' @ ID (nodeID n))), w)
      | Some resource \<Rightarrow>
          applyNetResource E (storageDir n) (NetID network) resource (AllocationNR network) w)"

text \<open>\<^verbatim>\<open>DeleteNetResource\<close>, lines 63-75.\<close>

definition DeleteNetResource ::
  "('k, 'h, 'nib) env \<Rightarrow> networker \<Rightarrow> Network \<Rightarrow> ('k, 'h) world \<Rightarrow> error option \<times> ('k, 'h) world" where
  "DeleteNetResource E n network w =
     (case find (\<lambda>res. NodeID res = nodeID n) (Resources network) of
        None \<Rightarrow> (Some (Errorf (''not network resource for this node: '' @ ID (nodeID n))), w)
      | Some resource \<Rightarrow> deleteNetResource E resource (AllocationNR network) w)"


section \<open>A reference machine\<close>

text \<open>
  The kernel wrappers, the addressing scheme and the key store are not under src/.
  The definitions of this section give them one concrete behaviour, following the
  specification: they are the machine on which the general statements below are
  exercised, and the machine on which the properties of the wrappers themselves
  (what a deletion of a missing object returns, what a stored key reads back as)
  are stated. Handles are the names of the objects.
\<close>

record kernel =
  bridges :: "string list"
  namespaces :: "string list"
  links :: "string list"
  keyfiles :: "(string \<times> Key) list"
  entropy :: "Key list"
  faults :: "string list"

text \<open>
  Modelled from the spec: the failure of a kernel wrapper (KernelObjectError, section 7),
  which the wrappers' code, not under src/, raises. A wrapper whose name is listed in
  \<open>faults\<close> fails and changes nothing.
\<close>

definition guarded ::
  "string \<Rightarrow> (kernel \<Rightarrow> (error + 'a) \<times> kernel) \<Rightarrow> kernel \<Rightarrow> (error + 'a) \<times> kernel" where
  "guarded nm f k = (if nm \<in> set (faults k) then (Inl (PrimError nm), k) else f k)"

definition guardedE ::
  "string \<Rightarrow> (kernel \<Rightarrow> error option \<times> kernel) \<Rightarrow> kernel \<Rightarrow> error option \<times> kernel" where
  "guardedE nm f k = (if nm \<in> set (faults k) then (Some (PrimError nm), k) else f k)"

text \<open>
  Modelled from the spec: \<^verbatim>\<open>bridge.New\<close>, \<^verbatim>\<open>bridge.AttachNic\<close> and \<^verbatim>\<open>bridge.Delete\<close>
  of package bridge, not under src/. Section 4.2: a bridge is created on the host if
  absent; deleting a bridge that does not exist surfaces as a lookup error.
\<close>

definition ref_bridge_New :: "string \<Rightarrow> kernel \<Rightarrow> (error + string) \<times> kernel" where
  "ref_bridge_New name =
     guarded ''bridge.New'' (\<lambda>k. (Inr name, k\<lparr>bridges := List.insert name (bridges k)\<rparr>))"

definition ref_bridge_AttachNic :: "string \<Rightarrow> string \<Rightarrow> kernel \<Rightarrow> error option \<times> kernel" where
  "ref_bridge_AttachNic nic br = guardedE ''bridge.AttachNic'' (\<lambda>k. (None, k))"

definition ref_bridge_Delete :: "string \<Rightarrow> kernel \<Rightarrow> error option \<times> kernel" where
  "ref_bridge_Delete name =
     guardedE ''bridge.Delete''
       (\<lambda>k. if name \<in> set (bridges k) then (None, k\<lparr>bridges := removeAll name (bridges k)\<rparr>)
            else (Some (PrimError (''Link not found: '' @ name)), k))"

text \<open>
  Modelled from the spec: \<^verbatim>\<open>namespace.Create\<close>, \<^verbatim>\<open>namespace.GetByName\<close>,
  \<^verbatim>\<open>namespace.SetLink\<close> and \<^verbatim>\<open>namespace.Delete\<close> of package namespace, not under
  src/. Section 4.2: as for a bridge, deleting a namespace that does not exist is a
  lookup error; a namespace is found by name only when it exists.
\<close>

definition ref_namespace_Create :: "string \<Rightarrow> kernel \<Rightarrow> (error + string) \<times> kernel" where
  "ref_namespace_Create name =
     guarded ''namespace.Create''
       (\<lambda>k. (Inr name, k\<lparr>namespaces := List.insert name (namespaces k)\<rparr>))"

definition ref_namespace_GetByName :: "string \<Rightarrow> kernel \<Rightarrow> (error + string) \<times> kernel" where
  "ref_namespace_GetByName name =
     guarded ''namespace.GetByName''
       (\<lambda>k. if name \<in> set (namespaces k) then (Inr name, k)
            else (Inl (PrimError (''namespace not found: '' @ name)), k))"

definition ref_namespace_SetLink :: "string \<Rightarrow> string \<Rightarrow> kernel \<Rightarrow> error option \<times> kernel" where
  "ref_namespace_SetLink lnk name = guardedE ''namespace.SetLink'' (\<lambda>k. (None, k))"

definition ref_namespace_Delete :: "string \<Rightarrow> kernel \<Rightarrow> error option \<times> kernel" where
  "ref_namespace_Delete name =
     guardedE ''namespace.Delete''
       (\<lambda>k. if name \<in> set (namespaces k)
            then (None, k\<lparr>namespaces := removeAll name (namespaces k)\<rparr>)
            else (Some (PrimError (''namespace not found: '' @ name)), k))"

text \<open>
  Modelled from the spec: entering and leaving a namespace, and the link calls of the
  netlink and CNI libraries, not under src/. The veth pair has its namespace end under
  the name asked for and its host end under a name of the library's choice.
\<close>

definition ref_netns_enter :: "string \<Rightarrow> kernel \<Rightarrow> (error + string) \<times> kernel" where
  "ref_netns_enter netns = guarded ''netns.Do'' (\<lambda>k. (Inr ''host'', k))"

definition ref_netns_leave :: "string \<Rightarrow> kernel \<Rightarrow> kernel" where
  "ref_netns_leave netns k = k"

definition ref_ip_SetupVeth ::
  "string \<Rightarrow> nat \<Rightarrow> string \<Rightarrow> kernel \<Rightarrow> (error + string \<times> string) \<times> kernel" where
  "ref_ip_SetupVeth name mtu hostNS =
     guarded ''ip.SetupVeth''
       (\<lambda>k. (Inr (''veth'' @ name, name), k\<lparr>links := name # (''veth'' @ name) # links k\<rparr>))"

definition ref_netlink_LinkByName :: "string \<Rightarrow> kernel \<Rightarrow> (error + string) \<times> kernel" where
  "ref_netlink_LinkByName name =
     guarded ''netlink.LinkByName''
       (\<lambda>k. if name \<in> set (links k) then (Inr name, k)
            else (Inl (PrimError (''Link not found: '' @ name)), k))"

definition ref_netlink_AddrAdd :: "string \<Rightarrow> IPNet \<Rightarrow> string \<Rightarrow> kernel \<Rightarrow> error option \<times> kernel" where
  "ref_netlink_AddrAdd lnk addr label = guardedE ''netlink.AddrAdd'' (\<lambda>k. (None, k))"

text \<open>
  Modelled from the spec: \<^verbatim>\<open>wireguard.New\<close>, \<^verbatim>\<open>wireguard.GetByName\<close> and
  \<^verbatim>\<open>Wireguard.Configure\<close> of package wireguard, not under src/ (the tunnel primitive of
  section 6: create by name, get by name, configure).
\<close>

definition ref_wireguard_New :: "string \<Rightarrow> kernel \<Rightarrow> (error + string) \<times> kernel" where
  "ref_wireguard_New name =
     guarded ''wireguard.New'' (\<lambda>k. (Inr name, k\<lparr>links := name # links k\<rparr>))"

definition ref_wireguard_GetByName :: "string \<Rightarrow> kernel \<Rightarrow> (error + string) \<times> kernel" where
  "ref_wireguard_GetByName name =
     guarded ''wireguard.GetByName''
       (\<lambda>k. if name \<in> set (links k) then (Inr name, k)
            else (Inl (PrimError (''Link not found: '' @ name)), k))"

definition ref_wg_Configure ::
  "string \<Rightarrow> string \<Rightarrow> string \<Rightarrow> Peer list \<Rightarrow> kernel \<Rightarrow> error option \<times> kernel" where
  "ref_wg_Configure wg addr privateKey peers = guardedE ''wireguard.Configure'' (\<lambda>k. (None, k))"

text \<open>
  Modelled from the spec: \<^verbatim>\<open>wireguard.LoadKey\<close> and \<^verbatim>\<open>wireguard.GenerateKey\<close> of
  package wireguard, not under src/. Sections 4.3, 6 and 7: one key file for each path;
  loading returns the key persisted at the path, and fails (KeyIOError) when there is
  none and also when the file cannot be read (the fault \<^verbatim>\<open>wireguard.LoadKey\<close>), the
  file staying as it is; generating draws a fresh key, persists it at the path,
  replacing what the path held, and returns it, and fails (KeyIOError) when no key can
  be drawn. \<open>entropy\<close> holds the keys the generator will draw. A failure returns the
  zero key.
\<close>

definition zeroKey :: Key where
  "zeroKey = replicate 32 0"

definition guardedK ::
  "string \<Rightarrow> (kernel \<Rightarrow> (Key \<times> error option) \<times> kernel) \<Rightarrow> kernel \<Rightarrow>
   (Key \<times> error option) \<times> kernel" where
  "guardedK nm f k =
     (if nm \<in> set (faults k) then ((zeroKey, Some (PrimError nm)), k) else f k)"

definition ref_wireguard_LoadKey :: "string \<Rightarrow> kernel \<Rightarrow> (Key \<times> error option) \<times> kernel" where
  "ref_wireguard_LoadKey path =
     guardedK ''wireguard.LoadKey''
       (\<lambda>k. case map_of (keyfiles k) path of
              Some key \<Rightarrow> ((key, None), k)
            | None \<Rightarrow> ((zeroKey, Some (PrimError (''no such file: '' @ path))), k))"

definition ref_wireguard_GenerateKey :: "string \<Rightarrow> kernel \<Rightarrow> (Key \<times> error option) \<times> kernel" where
  "ref_wireguard_GenerateKey path k =
     (case entropy k of
        [] \<Rightarrow> ((zeroKey, Some (PrimError ''cannot generate key'')), k)
      | key # rest \<Rightarrow>
          ((key, None), k\<lparr>keyfiles := (path, key) # keyfiles k, entropy := rest\<rparr>))"

text \<open>
  Modelled from the spec: the addressing scheme of package \<^verbatim>\<open>zosip\<close>, not under src/.
  Section 4.1: the names are short strings made of the hexadecimal form of prefix bytes
  and of the allocation number, one letter apart (\<^verbatim>\<open>b-<hex>\<close>, \<^verbatim>\<open>n-<hex>\<close> in
  section 8); \<open>ToV4\<close> gives two small integers from the prefix bytes and fails on a
  prefix that is too short. The bytes are the two that \<^verbatim>\<open>wgIP\<close> of the file takes.
\<close>

definition ref_NewNibble :: "IPNet \<Rightarrow> int8 \<Rightarrow> byte list \<times> int8" where
  "ref_NewNibble prefix allocNr = (take 2 (drop 6 (IPNet.IP prefix)), allocNr)"

definition ref_Hex :: "byte list \<times> int8 \<Rightarrow> string" where
  "ref_Hex n = hexString (fst n)"

definition ref_name :: "string \<Rightarrow> byte list \<times> int8 \<Rightarrow> string" where
  "ref_name letter n = letter @ ''-'' @ ref_Hex n @ ''-'' @ itoa (sint (snd n))"

definition ref_ToV4 :: "byte list \<times> int8 \<Rightarrow> error + int \<times> int" where
  "ref_ToV4 n =
     (case fst n of
        [a, b] \<Rightarrow> Inr (int (unat a), int (unat b))
      | _ \<Rightarrow> Inl (PrimError ''invalid address''))"

text \<open>
  The library functions on the reference machine. \<open>ref_Join\<close> is \<^verbatim>\<open>filepath.Join\<close>
  on two clean, non-empty elements. \<open>ref_ParseCIDR\<close> is \<^verbatim>\<open>net.ParseCIDR\<close> on
  dotted IPv4 text with a prefix length, the only text the file passes to it; it
  rejects anything else. The two \<open>String\<close> functions are stand-ins that print the
  bytes.
\<close>

definition ref_Join :: "string \<Rightarrow> string \<Rightarrow> string" where
  "ref_Join dir name = dir @ ''/'' @ name"

fun splitOn :: "char \<Rightarrow> string \<Rightarrow> string list" where
  "splitOn c [] = [[]]"
| "splitOn c (x # xs) =
     (if x = c then [] # splitOn c xs
      else (case splitOn c xs of [] \<Rightarrow> [[x]] | y # ys \<Rightarrow> (x # y) # ys))"

fun atouAcc :: "nat \<Rightarrow> string \<Rightarrow> nat option" where
  "atouAcc acc [] = Some acc"
| "atouAcc acc (c # cs) =
     (if (48::nat) \<le> of_char c \<and> (of_char c :: nat) \<le> 57
      then atouAcc (10 * acc + (of_char c - 48)) cs else None)"

definition atou :: "string \<Rightarrow> nat option" where
  "atou s = (if s = [] then None else atouAcc 0 s)"

definition cidrMask4 :: "nat \<Rightarrow> byte list" where
  "cidrMask4 n = map (\<lambda>i. if 8 * (i + 1) \<le> n then 0xff
                          else if n \<le> 8 * i then 0
                          else push_bit (8 * (i + 1) - n) 0xff) [0, 1, 2, 3]"

definition ref_ParseCIDR :: "string \<Rightarrow> error + IP \<times> IPNet" where
  "ref_ParseCIDR s =
     (case splitOn CHR ''/'' s of
        [addr, len] \<Rightarrow>
          (case (map atou (splitOn CHR ''.'' addr), atou len) of
             ([Some a, Some b, Some c, Some d], Some n) \<Rightarrow>
               if a \<le> 255 \<and> b \<le> 255 \<and> c \<le> 255 \<and> d \<le> 255 \<and> n \<le> 32
               then Inr (v4InV6Prefix @ [of_nat a, of_nat b, of_nat c, of_nat d],
                         \<lparr>IPNet.IP = map2 (\<lambda>x m. x AND m)
                                       [of_nat a, of_nat b, of_nat c, of_nat d] (cidrMask4 n),
                          Mask = cidrMask4 n\<rparr>)
               else Inl (PrimError (''invalid CIDR address: '' @ s))
           | _ \<Rightarrow> Inl (PrimError (''invalid CIDR address: '' @ s)))
      | _ \<Rightarrow> Inl (PrimError (''invalid CIDR address: '' @ s)))"

definition ref_IPNet_String :: "IPNet \<Rightarrow> string" where
  "ref_IPNet_String n = IP_String (IPNet.IP n) @ ''/'' @ hexString (Mask n)"

definition refEnv :: "(kernel, string, byte list \<times> int8) env" where
  "refEnv =
     \<lparr>NewNibble = ref_NewNibble,
      NetworkName = ref_name ''n'',
      BridgeName = ref_name ''b'',
      WiregardName = ref_name ''w'',
      VethName = ref_name ''v'',
      Hex = ref_Hex,
      ToV4 = ref_ToV4,
      filepath_Join = ref_Join,
      ParseCIDR = ref_ParseCIDR,
      IPNet_String = ref_IPNet_String,
      Key_String = hexString,
      bridge_New = ref_bridge_New,
      bridge_AttachNic = ref_bridge_AttachNic,
      bridge_Delete = ref_bridge_Delete,
      namespace_Create = ref_namespace_Create,
      namespace_GetByName = ref_namespace_GetByName,
      namespace_SetLink = ref_namespace_SetLink,
      namespace_Delete = ref_namespace_Delete,
      netns_enter = ref_netns_enter,
      netns_leave = ref_netns_leave,
      ip_SetupVeth = ref_ip_SetupVeth,
      netlink_LinkByName = ref_netlink_LinkByName,
      netlink_AddrAdd = ref_netlink_AddrAdd,
      wireguard_New = ref_wireguard_New,
      wireguard_GetByName = ref_wireguard_GetByName,
      wireguard_LoadKey = ref_wireguard_LoadKey,
      wireguard_GenerateKey = ref_wireguard_GenerateKey,
      wg_Configure = ref_wg_Configure\<rparr>"


section \<open>Kinds of calls\<close>








section \<open>Sample inputs\<close>

definition mask64 :: IPMask where
  "mask64 = [0xff, 0xff, 0xff, 0xff, 0xff, 0xff, 0xff, 0xff, 0, 0, 0, 0, 0, 0, 0, 0]"

text \<open>The prefix \<^verbatim>\<open>2001:db8:aaaa::/64\<close> and the prefix \<^verbatim>\<open>2001:db8:aaaa:12ab::/64\<close>.\<close>

definition samplePrefix :: IPNet where
  "samplePrefix =
     \<lparr>IPNet.IP = [0x20, 0x01, 0x0d, 0xb8, 0xaa, 0xaa, 0, 0, 0, 0, 0, 0, 0, 0, 0, 0],
      Mask = mask64\<rparr>"

definition otherPrefix :: IPNet where
  "otherPrefix =
     \<lparr>IPNet.IP = [0x20, 0x01, 0x0d, 0xb8, 0xaa, 0xaa, 0x12, 0xab, 0, 0, 0, 0, 0, 0, 0, 0],
      Mask = mask64\<rparr>"

text \<open>A prefix of four bytes, too short for the reference addressing scheme.\<close>

definition shortPrefix :: IPNet where
  "shortPrefix = \<lparr>IPNet.IP = [10, 0, 0, 0], Mask = [0xff, 0, 0, 0]\<rparr>"

definition sampleLinkLocal :: IPNet where
  "sampleLinkLocal =
     \<lparr>IPNet.IP = [0xfe, 0x80, 0, 0, 0, 0, 0, 0, 0, 0, 0, 0, 0, 0, 0, 1], Mask = mask64\<rparr>"

text \<open>A tunnel peer at \<^verbatim>\<open>2001:db8::1\<close>, port 51820.\<close>

definition tunnelPeer :: Connected where
  "tunnelPeer =
     \<lparr>Type = ConnTypeWireguard,
      Connection = \<lparr>Connection.IP = [0x20, 0x01, 0x0d, 0xb8, 0, 0, 0, 0, 0, 0, 0, 0, 0, 0, 0, 1],
                    Port = 51820, Key = ''pubkey1''\<rparr>\<rparr>"

text \<open>A tunnel peer at \<^verbatim>\<open>10.0.0.5\<close>, port 51820.\<close>

definition v4Peer :: Connected where
  "v4Peer =
     \<lparr>Type = ConnTypeWireguard,
      Connection = \<lparr>Connection.IP = [10, 0, 0, 5], Port = 51820, Key = ''pubkey2''\<rparr>\<rparr>"

text \<open>A peer of another type.\<close>

definition otherPeer :: Connected where
  "otherPeer =
     \<lparr>Type = ConnTypeOther 1,
      Connection = \<lparr>Connection.IP = [10, 0, 0, 9], Port = 7000, Key = ''pubkey3''\<rparr>\<rparr>"

definition sampleResource :: NetResource where
  "sampleResource =
     \<lparr>NodeID = \<lparr>ID = ''node-1''\<rparr>, Prefix = samplePrefix, LinkLocal = sampleLinkLocal,
      Connected = [otherPeer, tunnelPeer]\<rparr>"

definition secondResource :: NetResource where
  "secondResource =
     \<lparr>NodeID = \<lparr>ID = ''node-1''\<rparr>, Prefix = otherPrefix, LinkLocal = sampleLinkLocal,
      Connected = [tunnelPeer, v4Peer]\<rparr>"

definition foreignResource :: NetResource where
  "foreignResource =
     \<lparr>NodeID = \<lparr>ID = ''node-2''\<rparr>, Prefix = otherPrefix, LinkLocal = sampleLinkLocal,
      Connected = []\<rparr>"

definition shortResource :: NetResource where
  "shortResource =
     \<lparr>NodeID = \<lparr>ID = ''node-1''\<rparr>, Prefix = shortPrefix, LinkLocal = sampleLinkLocal,
      Connected = []\<rparr>"

definition sampleNetwork :: Network where
  "sampleNetwork =
     \<lparr>NetID = ''net-1'', Resources = [foreignResource, sampleResource, secondResource],
      AllocationNR = 0\<rparr>"

definition foreignNetwork :: Network where
  "foreignNetwork = \<lparr>NetID = ''net-2'', Resources = [foreignResource], AllocationNR = 0\<rparr>"

definition thisNode :: networker where
  "thisNode = \<lparr>nodeID = \<lparr>ID = ''node-1''\<rparr>, storageDir = ''/var/keys''\<rparr>"

text \<open>A machine with no object and no key file, whose generator has two keys to draw.\<close>

definition freshKernel :: kernel where
  "freshKernel =
     \<lparr>bridges = [], namespaces = [], links = [], keyfiles = [],
      entropy = [[1, 2, 3], [4, 5, 6]], faults = []\<rparr>"

definition freshWorld :: "(kernel, string) world" where
  "freshWorld = \<lparr>trace = [], kern = freshKernel\<rparr>"






text \<open>
  A machine on which the namespace and the tunnel device of the second resource exist.
\<close>

definition meshWorld :: "(kernel, string) world" where
  "meshWorld =
     \<lparr>trace = [],
      kern = freshKernel\<lparr>namespaces := [''n-12ab-0''], links := [''w-12ab-0'']\<rparr>\<rparr>"






text \<open>The nibble of a resource, as every function of the file computes it first.\<close>

abbreviation nibbleOf :: "('k, 'h, 'nib) env \<Rightarrow> NetResource \<Rightarrow> int8 \<Rightarrow> 'nib" where
  "nibbleOf E resource allocNr \<equiv> NewNibble E (Prefix resource) allocNr"



section \<open>The calls each function makes\<close>

text \<open>
  What the functions of the file add to the trace, whatever the collaborators do.
\<close>

lemma find_first_index:
  assumes "i < length xs" and "P (xs ! i)" and "\<forall>j<i. \<not> P (xs ! j)"
  shows "find P xs = Some (xs ! i)"
  using assms
proof (induction xs arbitrary: i)
  case Nil
  then show ?case by simp
next
  case (Cons x xs)
  show ?case
  proof (cases i)
    case 0
    with Cons.prems show ?thesis by simp
  next
    case (Suc k)
    with Cons.prems have "\<not> P x" by auto
    moreover have "find P xs = Some (xs ! k)"
    proof (rule Cons.IH)
      show "k < length xs" using Cons.prems Suc by simp
      show "P (xs ! k)" using Cons.prems Suc by simp
      show "\<forall>j<k. \<not> P (xs ! j)"
      proof (intro allI impI)
        fix j assume "j < k"
        then have "Suc j < i" using Suc by simp
        with Cons.prems have "\<not> P ((x # xs) ! Suc j)" by blast
        then show "\<not> P (xs ! j)" by simp
      qed
    qed
    ultimately show ?thesis using Suc by simp
  qed
qed











lemma buildPeers_entries:
  assumes "buildPeers E nib cs i peers = Inr ps" and "i + length cs \<le> length peers"
  shows "length ps = length peers \<and>
         (\<forall>j<length cs. Type (cs ! j) = ConnTypeWireguard \<longrightarrow>
            (\<exists>a b. ToV4 E nib = Inr (a, b) \<and>
               ps ! (i + j) =
                 \<lparr>PublicKey = Key (Connection (cs ! j)), Endpoint = endpoint (cs ! j),
                  AllowedIPs = [''fe80::'' @ Hex E nib @ ''/128'',
                                ''172.16.'' @ itoa a @ ''.'' @ itoa b @ ''/32'']\<rparr>)) \<and>
         (\<forall>j<length cs. Type (cs ! j) \<noteq> ConnTypeWireguard \<longrightarrow> ps ! (i + j) = peers ! (i + j)) \<and>
         (\<forall>m<i. ps ! m = peers ! m)"
  using assms
proof (induction cs arbitrary: i peers)
  case Nil
  then show ?case by simp
next
  case (Cons peer rest)
  let ?entry = "\<lambda>c a b. \<lparr>PublicKey = Key (Connection c), Endpoint = endpoint c,
                  AllowedIPs = [''fe80::'' @ Hex E nib @ ''/128'',
                                ''172.16.'' @ itoa a @ ''.'' @ itoa b @ ''/32'']\<rparr>"
  show ?case
  proof (cases "Type peer = ConnTypeWireguard")
    case False
    with Cons.prems have run: "buildPeers E nib rest (Suc i) peers = Inr ps"
      and len: "Suc i + length rest \<le> length peers"
      by simp_all
    from Cons.IH [OF run len]
    have L: "length ps = length peers"
      and W: "\<forall>j<length rest. Type (rest ! j) = ConnTypeWireguard \<longrightarrow>
            (\<exists>a b. ToV4 E nib = Inr (a, b) \<and> ps ! (Suc i + j) = ?entry (rest ! j) a b)"
      and N: "\<forall>j<length rest. Type (rest ! j) \<noteq> ConnTypeWireguard \<longrightarrow>
            ps ! (Suc i + j) = peers ! (Suc i + j)"
      and P: "\<forall>m<Suc i. ps ! m = peers ! m"
      by blast+
    show ?thesis
    proof (intro conjI allI impI)
      show "length ps = length peers" by fact
    next
      fix j assume j: "j < length (peer # rest)"
        and t: "Type ((peer # rest) ! j) = ConnTypeWireguard"
      with False obtain j' where j': "j = Suc j'" "j' < length rest"
        by (cases j) auto
      with t W show "\<exists>a b. ToV4 E nib = Inr (a, b) \<and>
          ps ! (i + j) = ?entry ((peer # rest) ! j) a b"
        by simp
    next
      fix j assume j: "j < length (peer # rest)"
        and t: "Type ((peer # rest) ! j) \<noteq> ConnTypeWireguard"
      show "ps ! (i + j) = peers ! (i + j)"
      proof (cases j)
        case 0
        with P show ?thesis by simp
      next
        case (Suc j')
        with j t N show ?thesis by simp
      qed
    next
      fix m assume "m < i"
      with P show "ps ! m = peers ! m" by simp
    qed
  next
    case True
    with Cons.prems obtain a b where v4: "ToV4 E nib = Inr (a, b)"
      and run: "buildPeers E nib rest (Suc i) (peers[i := ?entry peer a b]) = Inr ps"
      by (auto split: sum.splits)
    from Cons.prems have len: "Suc i + length rest \<le> length (peers[i := ?entry peer a b])"
      by simp
    from Cons.prems have i: "i < length peers" by simp
    from Cons.IH [OF run len]
    have L: "length ps = length (peers[i := ?entry peer a b])"
      and W: "\<forall>j<length rest. Type (rest ! j) = ConnTypeWireguard \<longrightarrow>
            (\<exists>a b. ToV4 E nib = Inr (a, b) \<and> ps ! (Suc i + j) = ?entry (rest ! j) a b)"
      and N: "\<forall>j<length rest. Type (rest ! j) \<noteq> ConnTypeWireguard \<longrightarrow>
            ps ! (Suc i + j) = (peers[i := ?entry peer a b]) ! (Suc i + j)"
      and P: "\<forall>m<Suc i. ps ! m = (peers[i := ?entry peer a b]) ! m"
      by blast+
    show ?thesis
    proof (intro conjI allI impI)
      show "length ps = length peers" using L by simp
    next
      fix j assume j: "j < length (peer # rest)"
        and t: "Type ((peer # rest) ! j) = ConnTypeWireguard"
      show "\<exists>a b. ToV4 E nib = Inr (a, b) \<and>
          ps ! (i + j) = ?entry ((peer # rest) ! j) a b"
      proof (cases j)
        case 0
        from P i have "ps ! i = ?entry peer a b" by simp
        with v4 0 show ?thesis by simp
      next
        case (Suc j')
        with j t W show ?thesis by simp
      qed
    next
      fix j assume j: "j < length (peer # rest)"
        and t: "Type ((peer # rest) ! j) \<noteq> ConnTypeWireguard"
      with True obtain j' where j': "j = Suc j'" "j' < length rest"
        by (cases j) auto
      with t N show "ps ! (i + j) = peers ! (i + j)"
        by simp
    next
      fix m assume "m < i"
      with P show "ps ! m = peers ! m" by simp
    qed
  qed
qed



lemma configureWG_peers:
  assumes "trace (snd (configureWG E dir r nr w)) = trace w @ tn"
    and "WgConfigure wg addr ks ps \<in> set tn"
  shows "buildPeers E (nibbleOf E r nr) (Connected r) 0
           (replicate (length (Connected r)) zeroPeer) = Inr ps"
  using assms
  by (auto simp: configureWG_def Let_def obtainKey_def configureMesh_def netns_Do_def
        configureHandler_def call_def
      split: prod.splits sum.splits option.splits)

lemma applyNetResource_unfold:
  "applyNetResource E dir netID r nr w =
     (case createNetworkResource E netID r nr w of
        (Some err, w1) \<Rightarrow> (Some err, w1)
      | (None, w1) \<Rightarrow>
          (case obtainKey E (filepath_Join E dir (Hex E (nibbleOf E r nr))) w1 of
             ((key, Some err), w2) \<Rightarrow> (Some err, w2)
           | ((key, None), w2) \<Rightarrow> configureMesh E r (nibbleOf E r nr) key w2))"
  by (auto simp: applyNetResource_def configureWG_def Let_def
           split: prod.splits sum.splits option.splits)

text \<open>Every address of 4 or of 16 bytes is put in brackets.\<close>

lemma endpoint_bracketed:
  "length (Connection.IP (Connection peer)) = 4 \<or> length (Connection.IP (Connection peer)) = 16
   \<Longrightarrow> endpoint peer = ''['' @ IP_String (Connection.IP (Connection peer)) @ '']:'' @
           utoa (Port (Connection peer))"
  by (auto simp: endpoint_def To16_def)


section \<open>The functions on the reference machine\<close>

lemma refEnv_sel:
  "NewNibble refEnv = ref_NewNibble"
  "NetworkName refEnv = ref_name ''n''"
  "BridgeName refEnv = ref_name ''b''"
  "WiregardName refEnv = ref_name ''w''"
  "VethName refEnv = ref_name ''v''"
  "Hex refEnv = ref_Hex"
  "ToV4 refEnv = ref_ToV4"
  "filepath_Join refEnv = ref_Join"
  "ParseCIDR refEnv = ref_ParseCIDR"
  "IPNet_String refEnv = ref_IPNet_String"
  "Key_String refEnv = hexString"
  "bridge_New refEnv = ref_bridge_New"
  "bridge_AttachNic refEnv = ref_bridge_AttachNic"
  "bridge_Delete refEnv = ref_bridge_Delete"
  "namespace_Create refEnv = ref_namespace_Create"
  "namespace_GetByName refEnv = ref_namespace_GetByName"
  "namespace_SetLink refEnv = ref_namespace_SetLink"
  "namespace_Delete refEnv = ref_namespace_Delete"
  "netns_enter refEnv = ref_netns_enter"
  "netns_leave refEnv = ref_netns_leave"
  "ip_SetupVeth refEnv = ref_ip_SetupVeth"
  "netlink_LinkByName refEnv = ref_netlink_LinkByName"
  "netlink_AddrAdd refEnv = ref_netlink_AddrAdd"
  "wireguard_New refEnv = ref_wireguard_New"
  "wireguard_GetByName refEnv = ref_wireguard_GetByName"
  "wireguard_LoadKey refEnv = ref_wireguard_LoadKey"
  "wireguard_GenerateKey refEnv = ref_wireguard_GenerateKey"
  "wg_Configure refEnv = ref_wg_Configure"
  by (simp_all add: refEnv_def)

lemmas ref_prims =
  ref_bridge_New_def ref_bridge_AttachNic_def ref_bridge_Delete_def ref_namespace_Create_def
  ref_namespace_GetByName_def ref_namespace_SetLink_def ref_namespace_Delete_def
  ref_netns_enter_def ref_netns_leave_def ref_ip_SetupVeth_def ref_netlink_LinkByName_def
  ref_netlink_AddrAdd_def ref_wireguard_New_def ref_wireguard_GetByName_def
  ref_wireguard_LoadKey_def ref_wireguard_GenerateKey_def ref_wg_Configure_def
  guarded_def guardedE_def guardedK_def

lemmas fmt_simps = itoa_def utoa.simps xtoa.simps digit_char_def hexString_def





lemma ref_obtain_overwrites:
  assumes "''wireguard.LoadKey'' \<in> set (faults (kern w))" and "entropy (kern w) = k # rest"
  shows "obtainKey refEnv p w =
     ((k, None),
      \<lparr>trace = trace w @ [LoadKey p, GenerateKey p],
       kern = (kern w)\<lparr>keyfiles := (p, k) # keyfiles (kern w), entropy := rest\<rparr>\<rparr>)"
  using assms
  by (simp add: obtainKey_def call_def refEnv_sel ref_wireguard_LoadKey_def
        ref_wireguard_GenerateKey_def guardedK_def)





section \<open>The reference machine at the sample inputs\<close>

lemma sample_sel:
  "Prefix sampleResource = samplePrefix"
  "Prefix secondResource = otherPrefix"
  "Prefix shortResource = shortPrefix"
  "kern freshWorld = freshKernel"
  "trace freshWorld = []"
  "bridges freshKernel = []"
  "namespaces freshKernel = []"
  "keyfiles freshKernel = []"
  "faults freshKernel = []"
  by (simp_all add: sampleResource_def secondResource_def shortResource_def freshWorld_def
        freshKernel_def)

lemma sample_nibble:
  "ref_NewNibble samplePrefix 0 = ([0, 0], 0)"
  "ref_NewNibble otherPrefix 0 = ([0x12, 0xab], 0)"
  "ref_NewNibble shortPrefix 0 = ([], 0)"
  by (simp_all add: ref_NewNibble_def samplePrefix_def otherPrefix_def shortPrefix_def)

lemma sample_names:
  "ref_name ''b'' ([0, 0], 0) = ''b-0000-0''"
  "ref_name ''n'' ([0, 0], 0) = ''n-0000-0''"
  "ref_name ''w'' ([0, 0], 0) = ''w-0000-0''"
  "ref_name ''v'' ([0, 0], 0) = ''v-0000-0''"
  "ref_Hex ([0, 0], 0) = ''0000''"
  "ref_ToV4 ([0, 0], 0) = Inr (0, 0)"
  "ref_name ''b'' ([0x12, 0xab], 0) = ''b-12ab-0''"
  "ref_name ''n'' ([0x12, 0xab], 0) = ''n-12ab-0''"
  "ref_name ''w'' ([0x12, 0xab], 0) = ''w-12ab-0''"
  "ref_name ''v'' ([0x12, 0xab], 0) = ''v-12ab-0''"
  "ref_Hex ([0x12, 0xab], 0) = ''12ab''"
  "ref_ToV4 ([0x12, 0xab], 0) = Inr (18, 171)"
  "ref_name ''b'' ([], 0) = ''b--0''"
  "ref_name ''n'' ([], 0) = ''n--0''"
  "ref_name ''w'' ([], 0) = ''w--0''"
  "ref_name ''v'' ([], 0) = ''v--0''"
  "ref_ToV4 ([], 0) = Inl (PrimError ''invalid address'')"
  by (simp_all add: ref_name_def ref_Hex_def ref_ToV4_def fmt_simps)

lemma sample_parse:
  "ref_ParseCIDR ''10.0.0.1/24'' =
     Inr ([0, 0, 0, 0, 0, 0, 0, 0, 0, 0, 0xff, 0xff, 10, 0, 0, 1],
          \<lparr>IPNet.IP = [10, 0, 0, 0], Mask = [0xff, 0xff, 0xff, 0]\<rparr>)"
  "ref_ParseCIDR ''10.18.171.1/24'' =
     Inr ([0, 0, 0, 0, 0, 0, 0, 0, 0, 0, 0xff, 0xff, 10, 18, 171, 1],
          \<lparr>IPNet.IP = [10, 18, 171, 0], Mask = [0xff, 0xff, 0xff, 0]\<rparr>)"
  by (simp_all add: ref_ParseCIDR_def atou_def cidrMask4_def v4InV6Prefix_def)

lemma sample_endpoints:
  "endpoint tunnelPeer = ''[2001:db8::1]:51820''"
  "endpoint v4Peer = ''[10.0.0.5]:51820''"
  by (simp_all add: endpoint_def tunnelPeer_def v4Peer_def To16_def To4_def IP_String_def
        v4InV6Prefix_def longestZeros.simps fmt_simps)

lemma find_sample:
  "find (\<lambda>res. NodeID res = nodeID thisNode) (Resources sampleNetwork) = Some sampleResource"
  by (simp add: sampleNetwork_def thisNode_def foreignResource_def sampleResource_def)

lemma create_sample:
  "createNetworkResource refEnv ''net-1'' sampleResource 0 freshWorld =
     (None,
      \<lparr>trace =
         [BridgeNew ''b-0000-0'', NamespaceCreate ''n-0000-0'', NsDoEnter ''n-0000-0'',
          SetupVeth ''v-0000-0'' 1500 ''host'', LinkByName ''v-0000-0'',
          AddrAdd ''v-0000-0'' samplePrefix [],
          AddrAdd ''v-0000-0''
            \<lparr>IPNet.IP = [0, 0, 0, 0, 0, 0, 0, 0, 0, 0, 0xff, 0xff, 10, 0, 0, 1],
             Mask = [0xff, 0xff, 0xff, 0]\<rparr> [],
          NsDoExit ''n-0000-0'', LinkByName ''vethv-0000-0'',
          AttachNic ''vethv-0000-0'' ''b-0000-0'', WireguardNew ''w-0000-0'',
          NamespaceSetLink ''w-0000-0'' ''n-0000-0''],
       kern = freshKernel\<lparr>bridges := [''b-0000-0''], namespaces := [''n-0000-0''],
                links := [''w-0000-0'', ''v-0000-0'', ''vethv-0000-0'']\<rparr>\<rparr>)"
  by (simp add: createNetworkResource_def createHandler_def netns_Do_def call_def Let_def
        refEnv_sel ref_prims sampleResource_def sample_nibble sample_names sample_parse
        fmt_simps freshWorld_def freshKernel_def)


lemma create_short:
  "createNetworkResource refEnv ''net-1'' shortResource 0 freshWorld =
     (Some (PrimError ''invalid address''),
      \<lparr>trace =
         [BridgeNew ''b--0'', NamespaceCreate ''n--0'', NsDoEnter ''n--0'',
          SetupVeth ''v--0'' 1500 ''host'', LinkByName ''v--0'', NsDoExit ''n--0''],
       kern = freshKernel\<lparr>bridges := [''b--0''], namespaces := [''n--0''],
                links := [''v--0'', ''vethv--0'']\<rparr>\<rparr>)"
  by (simp add: createNetworkResource_def createHandler_def netns_Do_def call_def Let_def
        refEnv_sel ref_prims sample_sel sample_nibble sample_names fmt_simps freshKernel_def)

lemma obtain_sample:
  "obtainKey refEnv ''/var/keys/0000'' \<lparr>trace = tr, kern = freshKernel\<lparr>bridges := bs, namespaces := ns, links := ls\<rparr>\<rparr> =
     (([1, 2, 3], None),
      \<lparr>trace = tr @ [LoadKey ''/var/keys/0000'', GenerateKey ''/var/keys/0000''],
       kern = freshKernel\<lparr>bridges := bs, namespaces := ns, links := ls,
                keyfiles := [(''/var/keys/0000'', [1, 2, 3])], entropy := [[4, 5, 6]]\<rparr>\<rparr>)"
  by (simp add: obtainKey_def call_def refEnv_sel ref_prims freshKernel_def)

lemma peers_sample:
  "buildPeers refEnv ([0, 0], 0) [otherPeer, tunnelPeer] 0 [zeroPeer, zeroPeer] =
     Inr [zeroPeer,
          \<lparr>PublicKey = ''pubkey1'', Endpoint = ''[2001:db8::1]:51820'',
           AllowedIPs = [''fe80::0000/128'', ''172.16.0.0/32'']\<rparr>]"
  by (simp add: refEnv_sel sample_names sample_endpoints fmt_simps)
     (simp add: otherPeer_def tunnelPeer_def)

lemma configure_sample:
  "configureMesh refEnv sampleResource ([0, 0], 0) [1, 2, 3]
     \<lparr>trace = tr, kern = freshKernel\<lparr>bridges := bs, namespaces := [''n-0000-0''],
          links := [''w-0000-0'', ''v-0000-0'', ''vethv-0000-0''], keyfiles := kf, entropy := en\<rparr>\<rparr> =
    (None,
     \<lparr>trace = tr @
        [NamespaceGetByName ''n-0000-0'', NsDoEnter ''n-0000-0'', WireguardGetByName ''w-0000-0'',
         WgConfigure ''w-0000-0'' (ref_IPNet_String sampleLinkLocal) ''010203''
           [zeroPeer,
            \<lparr>PublicKey = ''pubkey1'', Endpoint = ''[2001:db8::1]:51820'',
             AllowedIPs = [''fe80::0000/128'', ''172.16.0.0/32'']\<rparr>],
         NsDoExit ''n-0000-0''],
      kern = freshKernel\<lparr>bridges := bs, namespaces := [''n-0000-0''],
          links := [''w-0000-0'', ''v-0000-0'', ''vethv-0000-0''], keyfiles := kf, entropy := en\<rparr>\<rparr>)"
proof -
  have c: "Connected sampleResource = [otherPeer, tunnelPeer]"
    "LinkLocal sampleResource = sampleLinkLocal"
    by (simp_all add: sampleResource_def)
  have key: "hexString [1, 2, 3] = ''010203''"
    by (simp add: fmt_simps)
  show ?thesis
    by (simp add: configureMesh_def configureHandler_def netns_Do_def call_def c peers_sample
          refEnv_sel sample_names ref_prims key freshKernel_def del: buildPeers.simps)
qed

lemma peers_second:
  "buildPeers refEnv ([0x12, 0xab], 0) [tunnelPeer, v4Peer] 0 [zeroPeer, zeroPeer] =
     Inr [\<lparr>PublicKey = ''pubkey1'', Endpoint = ''[2001:db8::1]:51820'',
           AllowedIPs = [''fe80::12ab/128'', ''172.16.18.171/32'']\<rparr>,
          \<lparr>PublicKey = ''pubkey2'', Endpoint = ''[10.0.0.5]:51820'',
           AllowedIPs = [''fe80::12ab/128'', ''172.16.18.171/32'']\<rparr>]"
  by (simp add: refEnv_sel sample_names sample_endpoints fmt_simps)
     (simp add: v4Peer_def tunnelPeer_def)

lemma configureWG_second:
  "configureWG refEnv ''/var/keys'' secondResource 0 meshWorld =
    (([1, 2, 3], None),
     \<lparr>trace =
        [LoadKey ''/var/keys/12ab'', GenerateKey ''/var/keys/12ab'',
         NamespaceGetByName ''n-12ab-0'', NsDoEnter ''n-12ab-0'', WireguardGetByName ''w-12ab-0'',
         WgConfigure ''w-12ab-0'' (ref_IPNet_String sampleLinkLocal) ''010203''
           [\<lparr>PublicKey = ''pubkey1'', Endpoint = ''[2001:db8::1]:51820'',
             AllowedIPs = [''fe80::12ab/128'', ''172.16.18.171/32'']\<rparr>,
            \<lparr>PublicKey = ''pubkey2'', Endpoint = ''[10.0.0.5]:51820'',
             AllowedIPs = [''fe80::12ab/128'', ''172.16.18.171/32'']\<rparr>],
         NsDoExit ''n-12ab-0''],
      kern = freshKernel\<lparr>namespaces := [''n-12ab-0''], links := [''w-12ab-0''],
               keyfiles := [(''/var/keys/12ab'', [1, 2, 3])], entropy := [[4, 5, 6]]\<rparr>\<rparr>)"
proof -
  have c: "Connected secondResource = [tunnelPeer, v4Peer]"
    "LinkLocal secondResource = sampleLinkLocal"
    by (simp_all add: secondResource_def)
  have key: "hexString [1, 2, 3] = ''010203''"
    by (simp add: fmt_simps)
  have path: "ref_Join ''/var/keys'' ''12ab'' = ''/var/keys/12ab''"
    by (simp add: ref_Join_def)
  show ?thesis
    by (simp add: configureWG_def Let_def obtainKey_def configureMesh_def configureHandler_def
          netns_Do_def call_def c peers_second refEnv_sel sample_sel sample_nibble sample_names
          ref_prims key path meshWorld_def freshKernel_def del: buildPeers.simps)
qed









section \<open>The order of the steps of an apply\<close>




section \<open>A network without a resource of this node\<close>

text \<open>
  C2: when no resource of the network carries the identity of this node,
  \<^verbatim>\<open>ApplyNetResource\<close> fails with the error "not network resource for this node"
  and the world is untouched: no call is made to any kernel wrapper or key function,
  and the machine is in the state it was in. \<^verbatim>\<open>DeleteNetResource\<close> does the same.
\<close>

theorem no_local_resource_no_mutation:
  assumes "\<forall>res \<in> set (Resources network). NodeID res \<noteq> nodeID n"
  shows "ApplyNetResource E n network w =
           (Some (Errorf (''not network resource for this node: '' @ ID (nodeID n))), w) \<and>
         DeleteNetResource E n network w =
           (Some (Errorf (''not network resource for this node: '' @ ID (nodeID n))), w)"
proof -
  have "find (\<lambda>res. NodeID res = nodeID n) (Resources network) = None"
    using assms by (simp add: find_None_iff)
  then show ?thesis
    by (simp add: ApplyNetResource_def DeleteNetResource_def)
qed

theorem no_local_resource_no_mutation_witness:
  "list_all (\<lambda>res. NodeID res \<noteq> nodeID thisNode) (Resources foreignNetwork) \<and>
   ApplyNetResource refEnv thisNode foreignNetwork freshWorld =
     (Some (Errorf ''not network resource for this node: node-1''), freshWorld) \<and>
   DeleteNetResource refEnv thisNode foreignNetwork freshWorld =
     (Some (Errorf ''not network resource for this node: node-1''), freshWorld)"
proof -
  have h: "\<forall>res \<in> set (Resources foreignNetwork). NodeID res \<noteq> nodeID thisNode"
    by (simp add: foreignNetwork_def foreignResource_def thisNode_def)
  have "ID (nodeID thisNode) = ''node-1''"
    by (simp add: thisNode_def)
  with no_local_resource_no_mutation [OF h, of refEnv freshWorld] h show ?thesis
    by (simp add: list_all_iff)
qed


section \<open>The key of a resource\<close>






section \<open>The peer list of a resource with a peer of another type\<close>

text \<open>
  C4 says that a connected peer of another type contributes nothing to the list passed
  to the configuration of the tunnel. The code makes the list with one slot for each
  connected peer and leaves the slot of a skipped peer at its zero value: on the
  reference machine, applying the sample resource, whose peers are one of another type
  and one tunnel peer, configures the device with two entries, the first of them the
  zero peer (empty public key, empty endpoint, no allowed address).
\<close>

theorem skipped_peer_leaves_zero_entry:
  "Connected sampleResource = [otherPeer, tunnelPeer] \<and>
   Type otherPeer \<noteq> ConnTypeWireguard \<and>
   ApplyNetResource refEnv thisNode sampleNetwork freshWorld =
     (None,
      \<lparr>trace = trace (snd (createNetworkResource refEnv ''net-1'' sampleResource 0 freshWorld)) @
         [LoadKey ''/var/keys/0000'', GenerateKey ''/var/keys/0000'',
          NamespaceGetByName ''n-0000-0'', NsDoEnter ''n-0000-0'', WireguardGetByName ''w-0000-0'',
          WgConfigure ''w-0000-0'' (ref_IPNet_String sampleLinkLocal) ''010203''
            [zeroPeer,
             \<lparr>PublicKey = ''pubkey1'', Endpoint = ''[2001:db8::1]:51820'',
              AllowedIPs = [''fe80::0000/128'', ''172.16.0.0/32'']\<rparr>],
          NsDoExit ''n-0000-0''],
       kern = freshKernel\<lparr>bridges := [''b-0000-0''], namespaces := [''n-0000-0''],
                links := [''w-0000-0'', ''v-0000-0'', ''vethv-0000-0''],
                keyfiles := [(''/var/keys/0000'', [1, 2, 3])], entropy := [[4, 5, 6]]\<rparr>\<rparr>)"
proof -
  have sel: "NetID sampleNetwork = ''net-1''" "AllocationNR sampleNetwork = 0"
    "storageDir thisNode = ''/var/keys''"
    by (simp_all add: sampleNetwork_def thisNode_def)
  have path: "ref_Join ''/var/keys'' ''0000'' = ''/var/keys/0000''"
    by (simp add: ref_Join_def)
  have "ApplyNetResource refEnv thisNode sampleNetwork freshWorld =
      applyNetResource refEnv ''/var/keys'' ''net-1'' sampleResource 0 freshWorld"
    by (simp add: ApplyNetResource_def find_sample sel)
  then show ?thesis
    by (simp add: applyNetResource_unfold create_sample refEnv_sel sample_sel sample_nibble
          sample_names path obtain_sample configure_sample)
       (simp add: sampleResource_def otherPeer_def)
qed


section \<open>The endpoint of an IPv4 peer\<close>

text \<open>
  C5 says that the endpoint of a peer is \<^verbatim>\<open>[ip]:port\<close> exactly when the address is
  an IPv6 literal, and \<^verbatim>\<open>ip:port\<close> for an IPv4 address, so that 10.0.0.5 with port
  51820 gives \<^verbatim>\<open>10.0.0.5:51820\<close>. The code tests \<^verbatim>\<open>To16() != nil\<close>, which holds
  for every IPv4 address as well: the peer at 10.0.0.5, its address in 4 bytes or in 16,
  gets the endpoint \<^verbatim>\<open>[10.0.0.5]:51820\<close>.
\<close>

theorem endpoint_brackets_ipv4:
  "endpoint v4Peer = ''[10.0.0.5]:51820'' \<and>
   endpoint (v4Peer\<lparr>Connection := (Connection v4Peer)
       \<lparr>Connection.IP := [0, 0, 0, 0, 0, 0, 0, 0, 0, 0, 0xff, 0xff, 10, 0, 0, 5]\<rparr>\<rparr>) =
     ''[10.0.0.5]:51820''"
  by (simp add: endpoint_def v4Peer_def To16_def To4_def IP_String_def v4InV6Prefix_def fmt_simps)


section \<open>The allowed addresses of a peer entry\<close>

text \<open>
  C6: in the peer list that \<^verbatim>\<open>configureWG\<close> passes to the configuration of the
  tunnel, the allowed addresses of the entry of every tunnel peer are the pair
  \<^verbatim>\<open>fe80::<Hex()>/128\<close>, \<^verbatim>\<open>172.16.a.b/32\<close> of the nibble of this resource, with
  (a, b) from its \<^verbatim>\<open>ToV4\<close>; nothing of the peer enters them, so the entries of all
  tunnel peers of a resource carry the same allowed addresses.
\<close>

theorem allowed_ips_from_own_nibble:
  assumes "trace (snd (configureWG E dir r nr w)) = trace w @ tn"
    and "WgConfigure wg addr ks ps \<in> set tn"
  shows "length ps = length (Connected r) \<and>
         (\<forall>i<length (Connected r). Type (Connected r ! i) = ConnTypeWireguard \<longrightarrow>
            (\<exists>a b. ToV4 E (nibbleOf E r nr) = Inr (a, b) \<and>
               AllowedIPs (ps ! i) =
                 [''fe80::'' @ Hex E (nibbleOf E r nr) @ ''/128'',
                  ''172.16.'' @ itoa a @ ''.'' @ itoa b @ ''/32''])) \<and>
         (\<forall>i j. i < length (Connected r) \<and> j < length (Connected r) \<and>
                Type (Connected r ! i) = ConnTypeWireguard \<and>
                Type (Connected r ! j) = ConnTypeWireguard \<longrightarrow>
                AllowedIPs (ps ! i) = AllowedIPs (ps ! j))"
proof -
  let ?cs = "Connected r"
  have built: "buildPeers E (nibbleOf E r nr) ?cs 0 (replicate (length ?cs) zeroPeer) = Inr ps"
    using assms by (rule configureWG_peers)
  have fit: "0 + length ?cs \<le> length (replicate (length ?cs) zeroPeer)"
    by simp
  from buildPeers_entries [OF built fit]
  have len: "length ps = length ?cs"
    and entry: "\<forall>j<length ?cs. Type (?cs ! j) = ConnTypeWireguard \<longrightarrow>
            (\<exists>a b. ToV4 E (nibbleOf E r nr) = Inr (a, b) \<and>
               ps ! (0 + j) =
                 \<lparr>PublicKey = Key (Connection (?cs ! j)), Endpoint = endpoint (?cs ! j),
                  AllowedIPs = [''fe80::'' @ Hex E (nibbleOf E r nr) @ ''/128'',
                                ''172.16.'' @ itoa a @ ''.'' @ itoa b @ ''/32'']\<rparr>)"
    by simp_all
  have own: "\<forall>i<length ?cs. Type (?cs ! i) = ConnTypeWireguard \<longrightarrow>
            (\<exists>a b. ToV4 E (nibbleOf E r nr) = Inr (a, b) \<and>
               AllowedIPs (ps ! i) =
                 [''fe80::'' @ Hex E (nibbleOf E r nr) @ ''/128'',
                  ''172.16.'' @ itoa a @ ''.'' @ itoa b @ ''/32''])"
  proof (intro allI impI)
    fix i assume "i < length ?cs" and "Type (?cs ! i) = ConnTypeWireguard"
    with entry obtain a b where "ToV4 E (nibbleOf E r nr) = Inr (a, b)"
      and "ps ! i = \<lparr>PublicKey = Key (Connection (?cs ! i)), Endpoint = endpoint (?cs ! i),
                  AllowedIPs = [''fe80::'' @ Hex E (nibbleOf E r nr) @ ''/128'',
                                ''172.16.'' @ itoa a @ ''.'' @ itoa b @ ''/32'']\<rparr>"
      by auto
    then show "\<exists>a b. ToV4 E (nibbleOf E r nr) = Inr (a, b) \<and>
               AllowedIPs (ps ! i) =
                 [''fe80::'' @ Hex E (nibbleOf E r nr) @ ''/128'',
                  ''172.16.'' @ itoa a @ ''.'' @ itoa b @ ''/32'']"
      by auto
  qed
  have same: "\<forall>i j. i < length ?cs \<and> j < length ?cs \<and>
                Type (?cs ! i) = ConnTypeWireguard \<and> Type (?cs ! j) = ConnTypeWireguard \<longrightarrow>
                AllowedIPs (ps ! i) = AllowedIPs (ps ! j)"
  proof (intro allI impI)
    fix i j
    assume both: "i < length ?cs \<and> j < length ?cs \<and>
                Type (?cs ! i) = ConnTypeWireguard \<and> Type (?cs ! j) = ConnTypeWireguard"
    from both own obtain a b where "ToV4 E (nibbleOf E r nr) = Inr (a, b)"
      and "AllowedIPs (ps ! i) = [''fe80::'' @ Hex E (nibbleOf E r nr) @ ''/128'',
                  ''172.16.'' @ itoa a @ ''.'' @ itoa b @ ''/32'']"
      by blast
    moreover from both own obtain a' b' where "ToV4 E (nibbleOf E r nr) = Inr (a', b')"
      and "AllowedIPs (ps ! j) = [''fe80::'' @ Hex E (nibbleOf E r nr) @ ''/128'',
                  ''172.16.'' @ itoa a' @ ''.'' @ itoa b' @ ''/32'']"
      by blast
    ultimately show "AllowedIPs (ps ! i) = AllowedIPs (ps ! j)"
      by simp
  qed
  from len own same show ?thesis by blast
qed

theorem allowed_ips_from_own_nibble_witness:
  "Connected secondResource = [tunnelPeer, v4Peer] \<and>
   Type tunnelPeer = ConnTypeWireguard \<and> Type v4Peer = ConnTypeWireguard \<and>
   WgConfigure ''w-12ab-0'' (ref_IPNet_String sampleLinkLocal) ''010203''
     [\<lparr>PublicKey = ''pubkey1'', Endpoint = ''[2001:db8::1]:51820'',
       AllowedIPs = [''fe80::12ab/128'', ''172.16.18.171/32'']\<rparr>,
      \<lparr>PublicKey = ''pubkey2'', Endpoint = ''[10.0.0.5]:51820'',
       AllowedIPs = [''fe80::12ab/128'', ''172.16.18.171/32'']\<rparr>]
     \<in> set (trace (snd (configureWG refEnv ''/var/keys'' secondResource 0 meshWorld))) \<and>
   Hex refEnv (nibbleOf refEnv secondResource 0) = ''12ab'' \<and>
   ToV4 refEnv (nibbleOf refEnv secondResource 0) = Inr (18, 171)"
proof -
  let ?ps = "[\<lparr>PublicKey = ''pubkey1'', Endpoint = ''[2001:db8::1]:51820'',
       AllowedIPs = [''fe80::12ab/128'', ''172.16.18.171/32'']\<rparr>,
      \<lparr>PublicKey = ''pubkey2'', Endpoint = ''[10.0.0.5]:51820'',
       AllowedIPs = [''fe80::12ab/128'', ''172.16.18.171/32'']\<rparr>]"
  let ?tn = "[LoadKey ''/var/keys/12ab'', GenerateKey ''/var/keys/12ab'',
         NamespaceGetByName ''n-12ab-0'', NsDoEnter ''n-12ab-0'', WireguardGetByName ''w-12ab-0'',
         WgConfigure ''w-12ab-0'' (ref_IPNet_String sampleLinkLocal) ''010203'' ?ps,
         NsDoExit ''n-12ab-0'']"
  have tm: "trace meshWorld = []"
    by (simp add: meshWorld_def)
  have h1: "trace (snd (configureWG refEnv ''/var/keys'' secondResource 0 meshWorld)) =
      trace meshWorld @ ?tn"
    by (simp add: configureWG_second tm)
  have h2: "WgConfigure ''w-12ab-0'' (ref_IPNet_String sampleLinkLocal) ''010203'' ?ps \<in> set ?tn"
    by simp
  have c: "Connected secondResource = [tunnelPeer, v4Peer]"
    "Type tunnelPeer = ConnTypeWireguard" "Type v4Peer = ConnTypeWireguard"
    by (simp_all add: secondResource_def tunnelPeer_def v4Peer_def)
  have nib: "Hex refEnv (nibbleOf refEnv secondResource 0) = ''12ab''"
    "ToV4 refEnv (nibbleOf refEnv secondResource 0) = Inr (18, 171)"
    by (simp_all add: refEnv_sel sample_sel sample_nibble sample_names)
  from allowed_ips_from_own_nibble [OF h1 h2]
  have "length ?ps = length (Connected secondResource)"
    by blast
  with h1 h2 c nib show ?thesis
    by (simp add: tm)
qed


section \<open>Names regenerated from the prefix and the allocation number\<close>




section \<open>Deleting a resource\<close>

text \<open>
  C8: the delete sequence deletes the bridge by name first and the namespace by name
  second; when the deletion of the bridge fails, its error is returned and the
  namespace is not deleted (no call is made for it, and the machine is as the failed
  call left it). On the reference machine, deleting a bridge or a namespace that does
  not exist is an error and not a no-op: the delete fails, and nothing is removed.
\<close>

theorem delete_bridge_then_namespace:
  "(case bridge_Delete E (BridgeName E (nibbleOf E r nr)) (kern w) of
      (Some err, k1) \<Rightarrow>
        deleteNetResource E r nr w =
          (Some err,
           \<lparr>trace = trace w @ [BridgeDelete (BridgeName E (nibbleOf E r nr))], kern = k1\<rparr>)
    | (None, k1) \<Rightarrow>
        deleteNetResource E r nr w =
          (fst (namespace_Delete E (NetworkName E (nibbleOf E r nr)) k1),
           \<lparr>trace = trace w @ [BridgeDelete (BridgeName E (nibbleOf E r nr)),
                               NamespaceDelete (NetworkName E (nibbleOf E r nr))],
            kern = snd (namespace_Delete E (NetworkName E (nibbleOf E r nr)) k1)\<rparr>)) \<and>
   (BridgeName refEnv (nibbleOf refEnv r nr) \<notin> set (bridges (kern v)) \<longrightarrow>
      fst (deleteNetResource refEnv r nr v) \<noteq> None \<and>
      snd (deleteNetResource refEnv r nr v) =
        \<lparr>trace = trace v @ [BridgeDelete (BridgeName refEnv (nibbleOf refEnv r nr))],
         kern = kern v\<rparr>) \<and>
   (NetworkName refEnv (nibbleOf refEnv r nr) \<notin> set (namespaces (kern v)) \<longrightarrow>
      fst (deleteNetResource refEnv r nr v) \<noteq> None \<and>
      namespaces (kern (snd (deleteNetResource refEnv r nr v))) = namespaces (kern v))"
proof (intro conjI impI)
  show "case bridge_Delete E (BridgeName E (nibbleOf E r nr)) (kern w) of
      (Some err, k1) \<Rightarrow>
        deleteNetResource E r nr w =
          (Some err,
           \<lparr>trace = trace w @ [BridgeDelete (BridgeName E (nibbleOf E r nr))], kern = k1\<rparr>)
    | (None, k1) \<Rightarrow>
        deleteNetResource E r nr w =
          (fst (namespace_Delete E (NetworkName E (nibbleOf E r nr)) k1),
           \<lparr>trace = trace w @ [BridgeDelete (BridgeName E (nibbleOf E r nr)),
                               NamespaceDelete (NetworkName E (nibbleOf E r nr))],
            kern = snd (namespace_Delete E (NetworkName E (nibbleOf E r nr)) k1)\<rparr>)"
    by (simp add: deleteNetResource_def Let_def call_def split: prod.splits option.splits)
next
  assume "BridgeName refEnv (nibbleOf refEnv r nr) \<notin> set (bridges (kern v))"
  then show "fst (deleteNetResource refEnv r nr v) \<noteq> None"
    and "snd (deleteNetResource refEnv r nr v) =
        \<lparr>trace = trace v @ [BridgeDelete (BridgeName refEnv (nibbleOf refEnv r nr))],
         kern = kern v\<rparr>"
    by (simp_all add: deleteNetResource_def Let_def call_def refEnv_sel ref_bridge_Delete_def
          guardedE_def)
next
  assume "NetworkName refEnv (nibbleOf refEnv r nr) \<notin> set (namespaces (kern v))"
  then show "fst (deleteNetResource refEnv r nr v) \<noteq> None"
    and "namespaces (kern (snd (deleteNetResource refEnv r nr v))) = namespaces (kern v)"
    by (simp_all add: deleteNetResource_def Let_def call_def refEnv_sel ref_bridge_Delete_def
          ref_namespace_Delete_def guardedE_def)
qed

theorem delete_bridge_then_namespace_witness:
  "''b-0000-0'' \<notin> set (bridges (kern freshWorld)) \<and>
   ''n-0000-0'' \<notin> set (namespaces (kern freshWorld)) \<and>
   fst (deleteNetResource refEnv sampleResource 0 freshWorld) \<noteq> None \<and>
   snd (deleteNetResource refEnv sampleResource 0 freshWorld) =
     \<lparr>trace = [BridgeDelete ''b-0000-0''], kern = freshKernel\<rparr> \<and>
   deleteNetResource refEnv sampleResource 0
       \<lparr>trace = [], kern = freshKernel\<lparr>bridges := [''b-0000-0'']\<rparr>\<rparr> =
     (Some (PrimError ''namespace not found: n-0000-0''),
      \<lparr>trace = [BridgeDelete ''b-0000-0'', NamespaceDelete ''n-0000-0''],
       kern = freshKernel\<lparr>bridges := []\<rparr>\<rparr>)"
proof -
  have names: "BridgeName refEnv (NewNibble refEnv samplePrefix 0) = ''b-0000-0''"
    "NetworkName refEnv (NewNibble refEnv samplePrefix 0) = ''n-0000-0''"
    by (simp_all add: refEnv_sel sample_nibble sample_names)
  have h1: "''b-0000-0'' \<notin> set (bridges (kern freshWorld))"
    and h2: "''n-0000-0'' \<notin> set (namespaces (kern freshWorld))"
    by (simp_all add: sample_sel)
  have third: "deleteNetResource refEnv sampleResource 0
       \<lparr>trace = [], kern = freshKernel\<lparr>bridges := [''b-0000-0'']\<rparr>\<rparr> =
     (Some (PrimError ''namespace not found: n-0000-0''),
      \<lparr>trace = [BridgeDelete ''b-0000-0'', NamespaceDelete ''n-0000-0''],
       kern = freshKernel\<lparr>bridges := []\<rparr>\<rparr>)"
    by (simp add: deleteNetResource_def Let_def call_def sample_sel refEnv_sel sample_nibble
          sample_names ref_prims freshKernel_def)
  from delete_bridge_then_namespace [of refEnv sampleResource 0 freshWorld freshWorld] h1 h2 third
  show ?thesis
    by (simp add: names sample_sel)
qed


section \<open>The addresses of the veth end\<close>




section \<open>The resource that apply and delete select\<close>

text \<open>
  C10: when several resources of the network carry the identity of this node, apply and
  delete both work on the first of them in list order, so both select the same
  resource of the same network.
\<close>

theorem first_matching_resource:
  assumes "i < length (Resources network)"
    and "NodeID (Resources network ! i) = nodeID n"
    and "\<forall>j<i. NodeID (Resources network ! j) \<noteq> nodeID n"
  shows "ApplyNetResource E n network w =
           applyNetResource E (storageDir n) (NetID network) (Resources network ! i)
             (AllocationNR network) w \<and>
         DeleteNetResource E n network w' =
           deleteNetResource E (Resources network ! i) (AllocationNR network) w'"
proof -
  have "find (\<lambda>res. NodeID res = nodeID n) (Resources network) = Some (Resources network ! i)"
    using assms by (intro find_first_index) auto
  then show ?thesis
    by (simp add: ApplyNetResource_def DeleteNetResource_def)
qed

theorem first_matching_resource_witness:
  "(1::nat) < length (Resources sampleNetwork) \<and>
   NodeID (Resources sampleNetwork ! 1) = nodeID thisNode \<and>
   NodeID (Resources sampleNetwork ! 2) = nodeID thisNode \<and>
   NodeID (Resources sampleNetwork ! 0) \<noteq> nodeID thisNode \<and>
   Resources sampleNetwork ! 1 = sampleResource \<and>
   ApplyNetResource refEnv thisNode sampleNetwork freshWorld =
     applyNetResource refEnv ''/var/keys'' ''net-1'' sampleResource 0 freshWorld \<and>
   DeleteNetResource refEnv thisNode sampleNetwork freshWorld =
     deleteNetResource refEnv sampleResource 0 freshWorld"
proof -
  have h1: "(1::nat) < length (Resources sampleNetwork)"
    by (simp add: sampleNetwork_def)
  have h2: "NodeID (Resources sampleNetwork ! 1) = nodeID thisNode"
    by (simp add: sampleNetwork_def sampleResource_def thisNode_def)
  have h3: "\<forall>j<1. NodeID (Resources sampleNetwork ! j) \<noteq> nodeID thisNode"
    by (simp add: sampleNetwork_def foreignResource_def thisNode_def)
  have more: "NodeID (Resources sampleNetwork ! 2) = nodeID thisNode"
    by (simp add: sampleNetwork_def secondResource_def thisNode_def)
  have sel: "Resources sampleNetwork ! 1 = sampleResource" "storageDir thisNode = ''/var/keys''"
    "NetID sampleNetwork = ''net-1''" "AllocationNR sampleNetwork = 0"
    by (simp_all add: sampleNetwork_def thisNode_def)
  from first_matching_resource [OF h1 h2 h3, of refEnv freshWorld freshWorld] h1 h2 h3 more sel
  show ?thesis by simp
qed

end
